theory Spec2Isabelle
  imports Main
begin

section \<open>Python values and exceptions\<close>

text \<open>
  The tool arguments, the remote responses and the result envelopes are JSON-like
  Python values. A \<open>dict\<close> keeps insertion order and its keys are strings here, so it
  is an association list with distinct keys. Floats are left out: the only float of
  the modelled code is the clock (\<open>time.time()\<close>), read as a number of seconds in
  \<open>int\<close>.
\<close>

datatype pyval =
    PNone
  | PBool bool
  | PInt int
  | PStr string
  | PList "pyval list"
  | PDict "(string \<times> pyval) list"

type_synonym pydict = "(string \<times> pyval) list"

text \<open>
  An exception is its class and \<open>str(e)\<close>. The type stands for the instances of
  Python's \<open>Exception\<close>, which is what every \<open>except Exception\<close> clause of the
  source catches; the signals that derive from \<open>BaseException\<close> only
  (\<open>KeyboardInterrupt\<close>, \<open>SystemExit\<close>, task cancellation) interrupt the process or
  the task from outside and are not modelled.
\<close>

datatype exn_class =
    ValueError | ConnectionError | RuntimeError
  | KeyError | TypeError | AttributeError
  | OtherError string

datatype exn = Exn exn_class string

fun exn_str :: "exn \<Rightarrow> string" where
  "exn_str (Exn c m) = m"

text \<open>Sequencing of steps that may raise: the first exception ends the block.\<close>

definition and_then :: "exn + 'a \<Rightarrow> ('a \<Rightarrow> exn + 'b) \<Rightarrow> exn + 'b" where
  "and_then m f = (case m of Inl e \<Rightarrow> Inl e | Inr x \<Rightarrow> f x)"

text \<open>\<open>try: m  except Exception as e: h e\<close>.\<close>

definition except_Exception :: "exn + 'a \<Rightarrow> (exn \<Rightarrow> exn + 'a) \<Rightarrow> exn + 'a" where
  "except_Exception m h = (case m of Inl e \<Rightarrow> h e | Inr x \<Rightarrow> Inr x)"

fun py_truthy :: "pyval \<Rightarrow> bool" where
  "py_truthy PNone = False"
| "py_truthy (PBool b) = b"
| "py_truthy (PInt i) = (i \<noteq> 0)"
| "py_truthy (PStr s) = (s \<noteq> [])"
| "py_truthy (PList xs) = (xs \<noteq> [])"
| "py_truthy (PDict kvs) = (kvs \<noteq> [])"

fun py_type_name :: "pyval \<Rightarrow> string" where
  "py_type_name PNone = ''NoneType''"
| "py_type_name (PBool b) = ''bool''"
| "py_type_name (PInt i) = ''int''"
| "py_type_name (PStr s) = ''str''"
| "py_type_name (PList xs) = ''list''"
| "py_type_name (PDict kvs) = ''dict''"

text \<open>A string between single quotes, as Python prints a name in a message.\<close>

definition quoted :: "string \<Rightarrow> string" where
  "quoted s = [CHR 0x27] @ s @ [CHR 0x27]"

text \<open>\<open>d.get(k, default)\<close> on a dict.\<close>

definition dict_get :: "pydict \<Rightarrow> string \<Rightarrow> pyval \<Rightarrow> pyval" where
  "dict_get d k dflt = (case map_of d k of None \<Rightarrow> dflt | Some v \<Rightarrow> v)"

text \<open>
  \<open>x.get(k, default)\<close> on any value: only a dict has the method, everything else
  raises \<open>AttributeError\<close>.
\<close>

fun py_get :: "pyval \<Rightarrow> string \<Rightarrow> pyval \<Rightarrow> exn + pyval" where
  "py_get (PDict d) k dflt = Inr (dict_get d k dflt)"
| "py_get v k dflt =
     Inl (Exn AttributeError (quoted (py_type_name v) @ '' object has no attribute '' @ quoted ''get''))"

text \<open>\<open>x[k]\<close> with a string key.\<close>

fun py_item :: "pyval \<Rightarrow> string \<Rightarrow> exn + pyval" where
  "py_item (PDict d) k =
     (case map_of d k of
        None \<Rightarrow> Inl (Exn KeyError (quoted k))
      | Some v \<Rightarrow> Inr v)"
| "py_item (PList xs) k =
     Inl (Exn TypeError ''list indices must be integers or slices, not str'')"
| "py_item (PStr s) k =
     Inl (Exn TypeError (''string indices must be integers, not '' @ quoted ''str''))"
| "py_item v k =
     Inl (Exn TypeError (quoted (py_type_name v) @ '' object is not subscriptable''))"

text \<open>\<open>len(x)\<close>.\<close>

fun py_len :: "pyval \<Rightarrow> exn + int" where
  "py_len (PStr s) = Inr (int (length s))"
| "py_len (PList xs) = Inr (int (length xs))"
| "py_len (PDict d) = Inr (int (length d))"
| "py_len v =
     Inl (Exn TypeError (''object of type '' @ quoted (py_type_name v) @ '' has no len()''))"

text \<open>\<open>x == n\<close> for an int literal \<open>n\<close> (a bool is an int in Python) and
  \<open>x == s\<close> for a string literal.\<close>

fun py_eq_int :: "pyval \<Rightarrow> int \<Rightarrow> bool" where
  "py_eq_int (PInt i) n = (i = n)"
| "py_eq_int (PBool b) n = ((if b then 1 else 0) = n)"
| "py_eq_int v n = False"

fun py_eq_str :: "pyval \<Rightarrow> string \<Rightarrow> bool" where
  "py_eq_str (PStr s) t = (s = t)"
| "py_eq_str v t = False"

text \<open>\<open>x in xs\<close> for a list of int literals, and for a list of string literals.\<close>

definition py_in_ints :: "pyval \<Rightarrow> int list \<Rightarrow> bool" where
  "py_in_ints v ns = list_ex (py_eq_int v) ns"

definition py_in_strs :: "pyval \<Rightarrow> string list \<Rightarrow> bool" where
  "py_in_strs v ss = list_ex (py_eq_str v) ss"

text \<open>\<open>sep.join(xs)\<close> for a list of strings.\<close>

fun py_join :: "string \<Rightarrow> string list \<Rightarrow> string" where
  "py_join sep [] = []"
| "py_join sep [x] = x"
| "py_join sep (x # y # ys) = x @ sep @ py_join sep (y # ys)"

section \<open>Response envelopes (utils/responses.py)\<close>

text \<open>An optional parameter is a value that may be \<open>None\<close>, as in the source.\<close>

definition success_response :: "pyval \<Rightarrow> pyval \<Rightarrow> pyval" where
  "success_response data metadata =
     PDict ([(''success'', PBool True), (''data'', data)]
            @ (if metadata \<noteq> PNone then [(''metadata'', metadata)] else []))"

definition error_response :: "pyval \<Rightarrow> pyval \<Rightarrow> pyval \<Rightarrow> pyval \<Rightarrow> pyval" where
  "error_response error tool_name status_code details =
     PDict ([(''success'', PBool False), (''error'', error)]
            @ (if tool_name \<noteq> PNone then [(''tool'', tool_name)] else [])
            @ (if status_code \<noteq> PNone then [(''status_code'', status_code)] else [])
            @ (if details \<noteq> PNone then [(''details'', details)] else []))"

definition validation_error_response :: "string \<Rightarrow> string \<Rightarrow> pyval \<Rightarrow> pyval" where
  "validation_error_response field message tool_name =
     error_response (PStr ''Validation error'') tool_name PNone
       (PDict [(''field'', PStr field), (''message'', PStr message)])"

definition api_error_response :: "string \<Rightarrow> pyval \<Rightarrow> string \<Rightarrow> pyval \<Rightarrow> pyval" where
  "api_error_response api_name status_code message tool_name =
     error_response (PStr (api_name @ '' API error'')) tool_name status_code
       (PDict [(''api'', PStr api_name), (''message'', PStr message)])"

text \<open>Presence of a top-level key in an envelope, and the value stored under it.\<close>

fun has_key :: "pyval \<Rightarrow> string \<Rightarrow> bool" where
  "has_key (PDict d) k = (map_of d k \<noteq> None)"
| "has_key v k = False"

fun key_value :: "pyval \<Rightarrow> string \<Rightarrow> pyval option" where
  "key_value (PDict d) k = map_of d k"
| "key_value v k = None"

text \<open>
  Totality of an envelope: exactly one of the keys \<open>data\<close> and \<open>error\<close> is present,
  \<open>data\<close> when \<open>success\<close> is true and \<open>error\<close> when it is false. An envelope names a
  tool when it is a success or carries that tool under the key \<open>tool\<close>.
\<close>

definition envelope_total :: "pyval \<Rightarrow> bool" where
  "envelope_total env =
     ((has_key env ''data'' \<noteq> has_key env ''error'')
      \<and> (has_key env ''data'' = (key_value env ''success'' = Some (PBool True)))
      \<and> (has_key env ''error'' = (key_value env ''success'' = Some (PBool False))))"

definition names_tool :: "string \<Rightarrow> pyval \<Rightarrow> bool" where
  "names_tool n env =
     (key_value env ''success'' = Some (PBool True) \<or> key_value env ''tool'' = Some (PStr n))"

definition well_formed :: "string \<Rightarrow> pyval \<Rightarrow> bool" where
  "well_formed n env = (envelope_total env \<and> names_tool n env)"

section \<open>The session provider (providers/crowdstrike.py)\<close>

text \<open>
  The settings the provider reads: the two credentials and the base URL.
\<close>

record settings =
  falcon_client_id :: string
  falcon_client_secret :: string
  falcon_base_url :: string

text \<open>
  The FalconPy objects the provider holds: the OAuth2 client, built from the
  credentials and the base URL, and one service collection per resource area, built
  from the access token and the base URL.
\<close>

datatype oauth2_client = OAuth2 string string string

datatype service =
    Hosts pyval string
  | Detects pyval string
  | Incidents pyval string

record provider =
  p_settings :: settings
  p_oauth2 :: "oauth2_client option"
  p_hosts :: "service option"
  p_detects :: "service option"
  p_incidents :: "service option"
  p_token_expiry :: int
  p_initialized :: bool

text \<open>\<open>CrowdStrikeProvider.__init__\<close>.\<close>

definition new_provider :: "settings \<Rightarrow> provider" where
  "new_provider st =
     \<lparr>p_settings = st, p_oauth2 = None, p_hosts = None, p_detects = None,
      p_incidents = None, p_token_expiry = 0, p_initialized = False\<rparr>"

text \<open>
  What the code observes of the outside during one call: the clock at the expiry
  check of a refresh and at the moment a new expiry is computed, the outcome of the
  token exchange and of the revocation, and the outcome of each remote operation of a
  service collection on its keyword arguments. \<open>str()\<close> of a value is a parameter as
  well.
\<close>

record world =
  time_check :: int
  time_auth :: int
  token_result :: "oauth2_client \<Rightarrow> exn + pyval"
  revoke_result :: "oauth2_client \<Rightarrow> exn + pyval"
  remote :: "service \<Rightarrow> string \<Rightarrow> pydict \<Rightarrow> exn + pyval"
  py_str :: "pyval \<Rightarrow> string"

text \<open>
  The calls a run makes, in order: the entry into the two lifecycle operations of the
  provider, the two authentication calls, and the business calls on a service
  collection. Logging is not recorded; the values a log call computes are.
\<close>

datatype event =
    CallShutdown
  | CallInitialize
  | TokenExchange
  | Revoke
  | RemoteCall string pydict

type_synonym 'a outcome = "(exn + 'a) \<times> provider \<times> event list"

text \<open>Lines 98 to 106 of \<open>initialize\<close>: the check of the authentication result.\<close>

definition check_auth_result :: "world \<Rightarrow> pyval \<Rightarrow> exn + unit" where
  "check_auth_result w auth_result =
     and_then
       (if \<not> py_truthy auth_result then Inr True
        else and_then (py_get auth_result ''status_code'' PNone)
               (\<lambda>sc. Inr (\<not> py_eq_int sc 201)))
       (\<lambda>failed.
          if failed then
            and_then (py_get auth_result ''body'' (PDict []))
              (\<lambda>body. and_then
                 (py_get body ''errors'' (PList [PStr ''Unknown authentication error'']))
                 (\<lambda>error_msg.
                    Inl (Exn ValueError (''Authentication failed: '' @ py_str w error_msg))))
          else Inr ())"

text \<open>\<open>time.time() + expires_in - 300\<close>: an int or a bool adds to the clock.\<close>

fun py_add_time :: "int \<Rightarrow> pyval \<Rightarrow> exn + int" where
  "py_add_time t (PInt n) = Inr (t + n)"
| "py_add_time t (PBool b) = Inr (t + (if b then 1 else 0))"
| "py_add_time t v =
     Inl (Exn TypeError (''unsupported operand type(s) for +: '' @ quoted ''float''
                          @ '' and '' @ quoted (py_type_name v)))"

text \<open>Lines 109 and 110: the new expiry, with the buffer of five minutes.\<close>

definition compute_expiry :: "world \<Rightarrow> pyval \<Rightarrow> exn + int" where
  "compute_expiry w auth_result =
     and_then (py_get auth_result ''body'' (PDict []))
       (\<lambda>body. and_then (py_get body ''expires_in'' (PInt 1800))
          (\<lambda>expires_in. and_then (py_add_time (time_auth w) expires_in)
             (\<lambda>t. Inr (t - 300))))"

text \<open>Line 118: \<open>auth_result["body"]["access_token"]\<close>.\<close>

definition access_token :: "pyval \<Rightarrow> exn + pyval" where
  "access_token auth_result =
     and_then (py_item auth_result ''body'') (\<lambda>body. py_item body ''access_token'')"

text \<open>The \<open>except Exception\<close> clause of \<open>initialize\<close>: the cause is wrapped.\<close>

definition init_failure :: "exn \<Rightarrow> exn" where
  "init_failure e = Exn ConnectionError (''Failed to initialize provider: '' @ exn_str e)"

definition initialize :: "world \<Rightarrow> provider \<Rightarrow> unit outcome" where
  "initialize w p =
     (if p_initialized p then (Inr (), p, [CallInitialize])
      else
        let st = p_settings p;
            client = OAuth2 (falcon_client_id st) (falcon_client_secret st) (falcon_base_url st);
            p1 = p\<lparr>p_oauth2 := Some client\<rparr>;
            tr = [CallInitialize, TokenExchange]
        in case and_then (token_result w client)
                  (\<lambda>auth_result. and_then (check_auth_result w auth_result)
                     (\<lambda>_. and_then (compute_expiry w auth_result)
                        (\<lambda>expiry. Inr (auth_result, expiry)))) of
             Inl e \<Rightarrow> (Inl (init_failure e), p1, tr)
           | Inr (auth_result, expiry) \<Rightarrow>
               let p2 = p1\<lparr>p_token_expiry := expiry\<rparr> in
               (case access_token auth_result of
                  Inl e \<Rightarrow> (Inl (init_failure e), p2, tr)
                | Inr token \<Rightarrow>
                    (Inr (),
                     p2\<lparr>p_hosts := Some (Hosts token (falcon_base_url st)),
                        p_detects := Some (Detects token (falcon_base_url st)),
                        p_incidents := Some (Incidents token (falcon_base_url st)),
                        p_initialized := True\<rparr>,
                     tr)))"

text \<open>
  \<open>shutdown\<close>: the revocation is attempted when an OAuth2 client is held, its failure
  is logged only, and the session fields are cleared. The expiry is not reset.
\<close>

definition shutdown :: "world \<Rightarrow> provider \<Rightarrow> unit outcome" where
  "shutdown w p =
     (let revoked =
            (case p_oauth2 p of
               None \<Rightarrow> (Inr PNone, [])
             | Some client \<Rightarrow>
                 (except_Exception (revoke_result w client) (\<lambda>e. Inr PNone), [Revoke]))
      in case fst revoked of
           Inl e \<Rightarrow> (Inl e, p, CallShutdown # snd revoked)
         | Inr _ \<Rightarrow>
             (Inr (),
              p\<lparr>p_oauth2 := None, p_hosts := None, p_detects := None,
                p_incidents := None, p_initialized := False\<rparr>,
              CallShutdown # snd revoked))"

definition refresh_token_if_needed :: "world \<Rightarrow> provider \<Rightarrow> unit outcome" where
  "refresh_token_if_needed w p =
     (if time_check w \<ge> p_token_expiry p then
        (case shutdown w p of
           (Inl e, p1, t1) \<Rightarrow> (Inl e, p1, t1)
         | (Inr _, p1, t1) \<Rightarrow>
             (case initialize w p1 of (r, p2, t2) \<Rightarrow> (r, p2, t1 @ t2)))
      else (Inr (), p, []))"


definition hosts :: "provider \<Rightarrow> exn + service" where
  "hosts p =
     (case p_hosts p of
        None \<Rightarrow> Inl (Exn RuntimeError ''Provider not initialized'')
      | Some h \<Rightarrow>
          if \<not> p_initialized p then Inl (Exn RuntimeError ''Provider not initialized'')
          else Inr h)"

definition detects :: "provider \<Rightarrow> exn + service" where
  "detects p =
     (case p_detects p of
        None \<Rightarrow> Inl (Exn RuntimeError ''Provider not initialized'')
      | Some h \<Rightarrow>
          if \<not> p_initialized p then Inl (Exn RuntimeError ''Provider not initialized'')
          else Inr h)"

definition incidents :: "provider \<Rightarrow> exn + service" where
  "incidents p =
     (case p_incidents p of
        None \<Rightarrow> Inl (Exn RuntimeError ''Provider not initialized'')
      | Some h \<Rightarrow>
          if \<not> p_initialized p then Inl (Exn RuntimeError ''Provider not initialized'')
          else Inr h)"



section \<open>The tool modules (tools/crowdstrike)\<close>

text \<open>
  A tool function reads the provider and returns an envelope, or raises; beside the
  result stands the list of the remote calls it made.
\<close>

type_synonym tool_run = "(exn + pyval) \<times> event list"

text \<open>
  \<open>provider.<area>.<operation>(**kwargs)\<close> followed by the statements \<open>k\<close> on the
  response: the property may raise before any call is made.
\<close>

definition call_remote ::
  "world \<Rightarrow> exn + service \<Rightarrow> string \<Rightarrow> pydict \<Rightarrow> (pyval \<Rightarrow> exn + pyval) \<Rightarrow> tool_run" where
  "call_remote w area operation kwargs k =
     (case area of
        Inl e \<Rightarrow> (Inl e, [])
      | Inr h \<Rightarrow> (and_then (remote w h operation kwargs) k, [RemoteCall operation kwargs]))"

text \<open>
  The \<open>except Exception as e\<close> clause that closes each tool function:
  \<open>error_response(error=f"<label>: {str(e)}", tool_name=<name>)\<close>.
\<close>

definition tool_failure :: "string \<Rightarrow> string \<Rightarrow> exn \<Rightarrow> exn + pyval" where
  "tool_failure label tool_name e =
     Inr (error_response (PStr (label @ '': '' @ exn_str e)) (PStr tool_name) PNone PNone)"

definition catching :: "string \<Rightarrow> string \<Rightarrow> tool_run \<Rightarrow> tool_run" where
  "catching label tool_name run =
     (except_Exception (fst run) (tool_failure label tool_name), snd run)"

text \<open>
  The branch on a status that is not a success, the same in the nine tool functions:
  \<open>api_error_response(api_name="CrowdStrike Falcon",
  status_code=response.get("status_code", 500),
  message=str(response.get("body", {}).get("errors", "Unknown error")), tool_name=...)\<close>.
\<close>

definition api_failure :: "world \<Rightarrow> string \<Rightarrow> pyval \<Rightarrow> exn + pyval" where
  "api_failure w tool_name response =
     and_then (py_get response ''status_code'' (PInt 500))
       (\<lambda>status_code. and_then (py_get response ''body'' (PDict []))
          (\<lambda>body. and_then (py_get body ''errors'' (PStr ''Unknown error''))
             (\<lambda>errors.
                Inr (api_error_response ''CrowdStrike Falcon'' status_code
                       (py_str w errors) (PStr tool_name)))))"

text \<open>
  The statements after the remote call of the three query functions
  (\<open>_query_devices_by_filter\<close>, \<open>_query_detections\<close>, \<open>_query_incidents\<close>), which
  differ in the data key and the tool name only. The default of the last \<open>get\<close>,
  \<open>len(ids)\<close>, is computed before the call, and once more for the log.
\<close>

definition query_response ::
  "world \<Rightarrow> string \<Rightarrow> string \<Rightarrow> pyval \<Rightarrow> pyval \<Rightarrow> pyval \<Rightarrow> exn + pyval" where
  "query_response w data_key tool_name limit offset response =
     and_then (py_get response ''status_code'' PNone)
       (\<lambda>sc.
          if \<not> py_eq_int sc 200 then api_failure w tool_name response
          else
            and_then (py_get response ''body'' (PDict []))
              (\<lambda>body. and_then (py_get body ''resources'' (PList []))
                 (\<lambda>ids. and_then (py_get body ''meta'' (PDict []))
                    (\<lambda>meta. and_then (py_get meta ''pagination'' (PDict []))
                       (\<lambda>pagination. and_then (py_len ids)
                          (\<lambda>n. and_then (py_get pagination ''total'' (PInt n))
                             (\<lambda>total. and_then (py_len ids)
                                (\<lambda>_. Inr (success_response
                                            (PDict [(data_key, ids)])
                                            (PDict [(''total'', total), (''limit'', limit),
                                                    (''offset'', offset)]))))))))))"

text \<open>The same for the three detail functions.\<close>

definition details_response :: "world \<Rightarrow> string \<Rightarrow> string \<Rightarrow> pyval \<Rightarrow> exn + pyval" where
  "details_response w data_key tool_name response =
     and_then (py_get response ''status_code'' PNone)
       (\<lambda>sc.
          if \<not> py_eq_int sc 200 then api_failure w tool_name response
          else
            and_then (py_get response ''body'' (PDict []))
              (\<lambda>body. and_then (py_get body ''resources'' (PList []))
                 (\<lambda>items. and_then (py_len items)
                    (\<lambda>_. and_then (py_len items)
                       (\<lambda>n. Inr (success_response
                                   (PDict [(data_key, items)])
                                   (PDict [(''count'', PInt n)])))))))"

text \<open>The query parameters of the three query functions.\<close>

definition query_params :: "pydict \<Rightarrow> pydict" where
  "query_params arguments =
     (let filter_expr = dict_get arguments ''filter'' PNone;
          limit = dict_get arguments ''limit'' (PInt 100);
          offset = dict_get arguments ''offset'' (PInt 0);
          sort = dict_get arguments ''sort'' PNone
      in [(''limit'', limit), (''offset'', offset)]
         @ (if py_truthy filter_expr then [(''filter'', filter_expr)] else [])
         @ (if py_truthy sort then [(''sort'', sort)] else []))"

subsection \<open>hosts.py\<close>

definition query_devices_by_filter :: "world \<Rightarrow> provider \<Rightarrow> pydict \<Rightarrow> tool_run" where
  "query_devices_by_filter w provider arguments =
     catching ''Failed to query devices'' ''query_devices_by_filter''
       (call_remote w (hosts provider) ''query_devices_by_filter'' (query_params arguments)
          (query_response w ''device_ids'' ''query_devices_by_filter''
             (dict_get arguments ''limit'' (PInt 100))
             (dict_get arguments ''offset'' (PInt 0))))"

definition get_device_details :: "world \<Rightarrow> provider \<Rightarrow> pydict \<Rightarrow> tool_run" where
  "get_device_details w provider arguments =
     catching ''Failed to get device details'' ''get_device_details''
       (let device_ids = dict_get arguments ''device_ids'' (PList []) in
        if \<not> py_truthy device_ids then
          (Inr (validation_error_response ''device_ids''
                  ''At least one device ID is required'' (PStr ''get_device_details'')), [])
        else
          (case py_len device_ids of
             Inl e \<Rightarrow> (Inl e, [])
           | Inr _ \<Rightarrow>
               call_remote w (hosts provider) ''get_device_details'' [(''ids'', device_ids)]
                 (details_response w ''devices'' ''get_device_details'')))"

text \<open>
  The two containment actions accept the statuses 200 and 202. \<open>_contain_host\<close> also
  computes, for its error log, \<open>response.get("status_code")\<close> and
  \<open>response.get("body", {}).get("errors")\<close> before it builds the API error.
\<close>

definition contain_host :: "world \<Rightarrow> provider \<Rightarrow> pydict \<Rightarrow> tool_run" where
  "contain_host w provider arguments =
     catching ''Failed to contain host'' ''contain_host''
       (let device_id = dict_get arguments ''device_id'' PNone in
        if \<not> py_truthy device_id then
          (Inr (validation_error_response ''device_id''
                  ''Device ID is required'' (PStr ''contain_host'')), [])
        else
          call_remote w (hosts provider) ''perform_action''
            [(''action_name'', PStr ''contain''), (''ids'', PList [device_id])]
            (\<lambda>response.
               and_then (py_get response ''status_code'' PNone)
                 (\<lambda>sc.
                    if \<not> py_in_ints sc [200, 202] then
                      and_then (py_get response ''status_code'' PNone)
                        (\<lambda>_. and_then (py_get response ''body'' (PDict []))
                           (\<lambda>body. and_then (py_get body ''errors'' PNone)
                              (\<lambda>_. api_failure w ''contain_host'' response)))
                    else
                      Inr (success_response
                             (PDict [(''device_id'', device_id), (''action'', PStr ''contained''),
                                     (''status'', PStr ''success'')])
                             PNone))))"

definition lift_containment :: "world \<Rightarrow> provider \<Rightarrow> pydict \<Rightarrow> tool_run" where
  "lift_containment w provider arguments =
     catching ''Failed to lift containment'' ''lift_containment''
       (let device_id = dict_get arguments ''device_id'' PNone in
        if \<not> py_truthy device_id then
          (Inr (validation_error_response ''device_id''
                  ''Device ID is required'' (PStr ''lift_containment'')), [])
        else
          call_remote w (hosts provider) ''perform_action''
            [(''action_name'', PStr ''lift_containment''), (''ids'', PList [device_id])]
            (\<lambda>response.
               and_then (py_get response ''status_code'' PNone)
                 (\<lambda>sc.
                    if \<not> py_in_ints sc [200, 202] then
                      api_failure w ''lift_containment'' response
                    else
                      Inr (success_response
                             (PDict [(''device_id'', device_id),
                                     (''action'', PStr ''containment_lifted''),
                                     (''status'', PStr ''success'')])
                             PNone))))"

text \<open>
  \<open>hosts.execute_tool\<close>: the refresh comes first, outside every \<open>try\<close>, then the
  routing on the tool name.
\<close>

definition unknown_tool :: "string \<Rightarrow> tool_run" where
  "unknown_tool tool_name =
     (Inr (error_response (PStr (''Unknown tool: '' @ tool_name)) (PStr tool_name) PNone PNone),
      [])"

definition hosts_execute_tool :: "world \<Rightarrow> provider \<Rightarrow> string \<Rightarrow> pydict \<Rightarrow> pyval outcome" where
  "hosts_execute_tool w provider tool_name arguments =
     (case refresh_token_if_needed w provider of
        (Inl e, p1, t1) \<Rightarrow> (Inl e, p1, t1)
      | (Inr _, p1, t1) \<Rightarrow>
          (let run =
                 (if tool_name = ''query_devices_by_filter''
                    then query_devices_by_filter w p1 arguments
                  else if tool_name = ''get_device_details''
                    then get_device_details w p1 arguments
                  else if tool_name = ''contain_host''
                    then contain_host w p1 arguments
                  else if tool_name = ''lift_containment''
                    then lift_containment w p1 arguments
                  else unknown_tool tool_name)
           in (fst run, p1, t1 @ snd run)))"

subsection \<open>detections.py\<close>

definition VALID_STATUSES :: "string list" where
  "VALID_STATUSES =
     [''new'', ''in_progress'', ''true_positive'', ''false_positive'', ''closed'',
      ''ignored'', ''reopened'']"

definition query_detections :: "world \<Rightarrow> provider \<Rightarrow> pydict \<Rightarrow> tool_run" where
  "query_detections w provider arguments =
     catching ''Failed to query detections'' ''query_detections''
       (call_remote w (detects provider) ''query_detects'' (query_params arguments)
          (query_response w ''detection_ids'' ''query_detections''
             (dict_get arguments ''limit'' (PInt 100))
             (dict_get arguments ''offset'' (PInt 0))))"

definition get_detection_details :: "world \<Rightarrow> provider \<Rightarrow> pydict \<Rightarrow> tool_run" where
  "get_detection_details w provider arguments =
     catching ''Failed to get detection details'' ''get_detection_details''
       (let detection_ids = dict_get arguments ''detection_ids'' (PList []) in
        if \<not> py_truthy detection_ids then
          (Inr (validation_error_response ''detection_ids''
                  ''At least one detection ID is required'' (PStr ''get_detection_details'')),
           [])
        else
          (case py_len detection_ids of
             Inl e \<Rightarrow> (Inl e, [])
           | Inr _ \<Rightarrow>
               call_remote w (detects provider) ''get_detect_summaries''
                 [(''ids'', detection_ids)]
                 (details_response w ''detections'' ''get_detection_details'')))"

text \<open>
  \<open>_update_detection_status\<close>: the three validations come before the log line that
  computes \<open>len(detection_ids)\<close>, the payload and the remote call.
\<close>

definition update_detection_status :: "world \<Rightarrow> provider \<Rightarrow> pydict \<Rightarrow> tool_run" where
  "update_detection_status w provider arguments =
     catching ''Failed to update detection status'' ''update_detection_status''
       (let detection_ids = dict_get arguments ''detection_ids'' (PList []);
            status = dict_get arguments ''status'' PNone;
            comment = dict_get arguments ''comment'' PNone
        in
        if \<not> py_truthy detection_ids then
          (Inr (validation_error_response ''detection_ids''
                  ''At least one detection ID is required''
                  (PStr ''update_detection_status'')), [])
        else if \<not> py_truthy status then
          (Inr (validation_error_response ''status''
                  ''Status is required'' (PStr ''update_detection_status'')), [])
        else if \<not> py_in_strs status VALID_STATUSES then
          (Inr (validation_error_response ''status''
                  (''Invalid status. Must be one of: '' @ py_join '', '' VALID_STATUSES)
                  (PStr ''update_detection_status'')), [])
        else
          (case py_len detection_ids of
             Inl e \<Rightarrow> (Inl e, [])
           | Inr _ \<Rightarrow>
               call_remote w (detects provider) ''update_detects_by_ids''
                 ([(''ids'', detection_ids), (''status'', status)]
                  @ (if py_truthy comment then [(''comment'', comment)] else []))
                 (\<lambda>response.
                    and_then (py_get response ''status_code'' PNone)
                      (\<lambda>sc.
                         if \<not> py_in_ints sc [200, 202] then
                           api_failure w ''update_detection_status'' response
                         else
                           and_then (py_len detection_ids)
                             (\<lambda>_. and_then (py_len detection_ids)
                                (\<lambda>n. Inr (success_response
                                            (PDict [(''updated_count'', PInt n),
                                                    (''detection_ids'', detection_ids),
                                                    (''status'', status)])
                                            PNone)))))))"

definition detections_execute_tool ::
  "world \<Rightarrow> provider \<Rightarrow> string \<Rightarrow> pydict \<Rightarrow> pyval outcome" where
  "detections_execute_tool w provider tool_name arguments =
     (case refresh_token_if_needed w provider of
        (Inl e, p1, t1) \<Rightarrow> (Inl e, p1, t1)
      | (Inr _, p1, t1) \<Rightarrow>
          (let run =
                 (if tool_name = ''query_detections''
                    then query_detections w p1 arguments
                  else if tool_name = ''get_detection_details''
                    then get_detection_details w p1 arguments
                  else if tool_name = ''update_detection_status''
                    then update_detection_status w p1 arguments
                  else unknown_tool tool_name)
           in (fst run, p1, t1 @ snd run)))"

subsection \<open>incidents.py\<close>

definition query_incidents :: "world \<Rightarrow> provider \<Rightarrow> pydict \<Rightarrow> tool_run" where
  "query_incidents w provider arguments =
     catching ''Failed to query incidents'' ''query_incidents''
       (call_remote w (incidents provider) ''query_incidents'' (query_params arguments)
          (query_response w ''incident_ids'' ''query_incidents''
             (dict_get arguments ''limit'' (PInt 100))
             (dict_get arguments ''offset'' (PInt 0))))"

definition get_incident_details :: "world \<Rightarrow> provider \<Rightarrow> pydict \<Rightarrow> tool_run" where
  "get_incident_details w provider arguments =
     catching ''Failed to get incident details'' ''get_incident_details''
       (let incident_ids = dict_get arguments ''incident_ids'' (PList []) in
        if \<not> py_truthy incident_ids then
          (Inr (validation_error_response ''incident_ids''
                  ''At least one incident ID is required'' (PStr ''get_incident_details'')),
           [])
        else
          (case py_len incident_ids of
             Inl e \<Rightarrow> (Inl e, [])
           | Inr _ \<Rightarrow>
               call_remote w (incidents provider) ''get_incidents''
                 [(''ids'', incident_ids)]
                 (details_response w ''incidents'' ''get_incident_details'')))"

definition incidents_execute_tool ::
  "world \<Rightarrow> provider \<Rightarrow> string \<Rightarrow> pydict \<Rightarrow> pyval outcome" where
  "incidents_execute_tool w provider tool_name arguments =
     (case refresh_token_if_needed w provider of
        (Inl e, p1, t1) \<Rightarrow> (Inl e, p1, t1)
      | (Inr _, p1, t1) \<Rightarrow>
          (let run =
                 (if tool_name = ''query_incidents''
                    then query_incidents w p1 arguments
                  else if tool_name = ''get_incident_details''
                    then get_incident_details w p1 arguments
                  else unknown_tool tool_name)
           in (fst run, p1, t1 @ snd run)))"

section \<open>The tool registry (tools/registry.py)\<close>

text \<open>
  A handler is awaited with the tool name and the arguments; it runs against the
  provider the registry holds and the outside, and returns a value or raises.
\<close>

type_synonym handler = "string \<Rightarrow> pydict \<Rightarrow> world \<Rightarrow> provider \<Rightarrow> pyval outcome"

record tool =
  name :: string
  description :: string
  input_schema :: pyval
  handler :: handler

text \<open>\<open>self._tools\<close>: a dict from names to tools, in insertion order.\<close>

type_synonym registry = "(string \<times> tool) list"

definition register_tool :: "tool \<Rightarrow> registry \<Rightarrow> (exn + unit) \<times> registry" where
  "register_tool t reg =
     (if map_of reg (name t) \<noteq> None
      then (Inl (Exn ValueError (''Tool '' @ quoted (name t) @ '' is already registered'')), reg)
      else (Inr (), reg @ [(name t, t)]))"

text \<open>
  \<open>register_module\<close>, on the list \<open>get_tools_func()\<close> returned: each tool gets the
  closure over the module's \<open>execute_func\<close> as its handler and is registered; the
  first exception ends the loop and leaves the registry as it is by then.
\<close>

definition bind_handler ::
  "(world \<Rightarrow> provider \<Rightarrow> string \<Rightarrow> pydict \<Rightarrow> pyval outcome) \<Rightarrow> handler" where
  "bind_handler execute_func = (\<lambda>nm args w p. execute_func w p nm args)"

fun register_module ::
  "tool list \<Rightarrow> (world \<Rightarrow> provider \<Rightarrow> string \<Rightarrow> pydict \<Rightarrow> pyval outcome) \<Rightarrow> registry
     \<Rightarrow> (exn + unit) \<times> registry" where
  "register_module [] execute_func reg = (Inr (), reg)"
| "register_module (t # ts) execute_func reg =
     (case register_tool (t\<lparr>handler := bind_handler execute_func\<rparr>) reg of
        (Inl e, reg1) \<Rightarrow> (Inl e, reg1)
      | (Inr _, reg1) \<Rightarrow> register_module ts execute_func reg1)"

definition get_tool :: "registry \<Rightarrow> string \<Rightarrow> tool option" where
  "get_tool reg nm = map_of reg nm"

definition list_tool_names :: "registry \<Rightarrow> string list" where
  "list_tool_names reg = map fst reg"

text \<open>
  \<open>ToolRegistry.execute_tool\<close>. Inside the \<open>try\<close> stand the call of the handler and
  the log line that computes \<open>result.get("success", False)\<close>.
\<close>

definition execute_tool :: "registry \<Rightarrow> string \<Rightarrow> pydict \<Rightarrow> world \<Rightarrow> provider \<Rightarrow> pyval outcome" where
  "execute_tool reg nm arguments w p =
     (case get_tool reg nm of
        None \<Rightarrow>
          (Inr (error_response (PStr (''Tool '' @ quoted nm @ '' not found''))
                  (PStr nm) (PInt 404) PNone),
           p, [])
      | Some t \<Rightarrow>
          (case handler t nm arguments w p of
             (r, p1, tr) \<Rightarrow>
               (except_Exception
                  (and_then r
                     (\<lambda>result. and_then (py_get result ''success'' (PBool False))
                        (\<lambda>_. Inr result)))
                  (\<lambda>e. Inr (error_response
                               (PStr (''Tool execution failed: '' @ exn_str e))
                               (PStr nm) (PInt 500) PNone)),
                p1, tr)))"

section \<open>Concrete inputs\<close>

text \<open>
  Settings, a rendering of values, an outside in which every remote operation answers
  200 with one resource, two authentication results, and a tool whose handler gives a
  fixed outcome.
\<close>

definition demo_settings :: settings where
  "demo_settings = \<lparr>falcon_client_id = ''id'', falcon_client_secret = ''key'',
     falcon_base_url = ''https://api.crowdstrike.com''\<rparr>"

fun demo_str :: "pyval \<Rightarrow> string" where
  "demo_str (PStr s) = s"
| "demo_str v = py_type_name v"

definition demo_world :: "pyval \<Rightarrow> world" where
  "demo_world auth =
     \<lparr>time_check = 1000, time_auth = 1000,
      token_result = (\<lambda>c. Inr auth),
      revoke_result = (\<lambda>c. Inr PNone),
      remote = (\<lambda>h operation kwargs.
                  Inr (PDict [(''status_code'', PInt 200),
                              (''body'', PDict [(''resources'', PList [PStr ''d1''])])])),
      py_str = demo_str\<rparr>"

definition auth_ok :: pyval where
  "auth_ok = PDict [(''status_code'', PInt 201),
                    (''body'', PDict [(''access_token'', PStr ''tok''), (''expires_in'', PInt 1800)])]"

definition demo_tool :: "string \<Rightarrow> (exn + pyval) \<Rightarrow> tool" where
  "demo_tool nm r =
     \<lparr>name = nm, description = ''demo'', input_schema = PDict [(''type'', PStr ''object'')],
      handler = (\<lambda>n args w p. (r, p, []))\<rparr>"

text \<open>
  A rejected authentication, an accepted one that carries no token, the provider
  after a successful \<open>initialize\<close>, and the same outside at a later time, when the
  token of that provider has expired.
\<close>

definition auth_denied :: pyval where
  "auth_denied = PDict [(''status_code'', PInt 401),
                        (''body'', PDict [(''errors'', PStr ''access denied'')])]"


definition ready_provider :: provider where
  "ready_provider = fst (snd (initialize (demo_world auth_ok) (new_provider demo_settings)))"



section \<open>The registry: lookup, uniqueness, the failure boundary\<close>

lemma not_listed: "nm \<notin> set (list_tool_names reg) \<longleftrightarrow> map_of reg nm = None"
  by (simp add: list_tool_names_def map_of_eq_None_iff)

lemma register_tool_fresh:
  "name t \<notin> set (list_tool_names reg) \<Longrightarrow> register_tool t reg = (Inr (), reg @ [(name t, t)])"
  by (simp add: register_tool_def not_listed)

lemma register_tool_taken:
  "name t \<in> set (list_tool_names reg) \<Longrightarrow>
   register_tool t reg =
     (Inl (Exn ValueError (''Tool '' @ quoted (name t) @ '' is already registered'')), reg)"
  using not_listed [of "name t" reg] by (simp add: register_tool_def)

lemma register_module_fresh:
  "distinct (map name ts) \<Longrightarrow> set (map name ts) \<inter> set (list_tool_names reg) = {} \<Longrightarrow>
   register_module (ts @ rest) f reg =
     register_module rest f (reg @ map (\<lambda>t. (name t, t\<lparr>handler := bind_handler f\<rparr>)) ts)"
proof (induction ts arbitrary: reg)
  case Nil
  then show ?case by simp
next
  case (Cons t ts)
  let ?b = "t\<lparr>handler := bind_handler f\<rparr>"
  have fresh: "name ?b \<notin> set (list_tool_names reg)" using Cons.prems(2) by auto
  have step: "register_tool ?b reg = (Inr (), reg @ [(name t, ?b)])"
    using register_tool_fresh [OF fresh] by simp
  have d: "distinct (map name ts)" using Cons.prems(1) by simp
  have i: "set (map name ts) \<inter> set (list_tool_names (reg @ [(name t, ?b)])) = {}"
    using Cons.prems by (auto simp: list_tool_names_def)
  show ?case using Cons.IH [OF d i] step by simp
qed

text \<open>
  Claim C3. For a name that is not registered, whatever the arguments,
  \<open>execute_tool\<close> returns, without raising and without touching the provider, the
  envelope with \<open>success = False\<close>, the error \<open>Tool '<name>' not found\<close>, the tool
  name and the status code 404.
\<close>

theorem execute_tool_unknown:
  "nm \<notin> set (list_tool_names reg) \<Longrightarrow>
   execute_tool reg nm arguments w p =
     (Inr (PDict [(''success'', PBool False),
                  (''error'', PStr (''Tool '' @ quoted nm @ '' not found'')),
                  (''tool'', PStr nm),
                  (''status_code'', PInt 404)]),
      p, [])"
  by (simp add: execute_tool_def get_tool_def not_listed error_response_def)

theorem execute_tool_unknown_witness:
  "''does_not_exist'' \<notin> set (list_tool_names [(''t'', demo_tool ''t'' (Inr PNone))]) \<and>
   execute_tool [(''t'', demo_tool ''t'' (Inr PNone))] ''does_not_exist'' [] (demo_world auth_ok)
       (new_provider demo_settings) =
     (Inr (PDict [(''success'', PBool False),
                  (''error'', PStr ''Tool 'does_not_exist' not found''),
                  (''tool'', PStr ''does_not_exist''),
                  (''status_code'', PInt 404)]),
      new_provider demo_settings, [])"
  using execute_tool_unknown [of "''does_not_exist''" "[(''t'', demo_tool ''t'' (Inr PNone))]"
      "[]" "demo_world auth_ok" "new_provider demo_settings"]
  by (simp add: list_tool_names_def quoted_def)

text \<open>
  Claim C4, amended. For a registered tool whose handler raises an exception with
  message \<open>m\<close>, \<open>execute_tool\<close> returns the envelope with \<open>success = False\<close>, the error
  \<open>Tool execution failed: m\<close> and the status code 500. A dict the handler returns is
  returned unchanged. A returned value that is not a dict does not pass through: the
  log line inside the \<open>try\<close> calls \<open>result.get\<close>, the \<open>AttributeError\<close> is caught, and
  the 500 envelope is returned in its place.
\<close>

theorem execute_tool_boundary:
  assumes "get_tool reg nm = Some t"
    and "handler t nm arguments w p = (r, p1, tr)"
  shows "(\<forall>e. r = Inl e \<longrightarrow>
            execute_tool reg nm arguments w p =
              (Inr (PDict [(''success'', PBool False),
                           (''error'', PStr (''Tool execution failed: '' @ exn_str e)),
                           (''tool'', PStr nm),
                           (''status_code'', PInt 500)]), p1, tr))
       \<and> (\<forall>d. r = Inr (PDict d) \<longrightarrow>
            execute_tool reg nm arguments w p = (Inr (PDict d), p1, tr))
       \<and> (\<forall>v. r = Inr v \<longrightarrow> (\<forall>d. v \<noteq> PDict d) \<longrightarrow>
            execute_tool reg nm arguments w p =
              (Inr (PDict [(''success'', PBool False),
                           (''error'', PStr (''Tool execution failed: '' @
                               quoted (py_type_name v) @ '' object has no attribute '' @ quoted ''get'')),
                           (''tool'', PStr nm),
                           (''status_code'', PInt 500)]), p1, tr))"
proof (intro conjI allI impI)
  fix e assume "r = Inl e"
  then show "execute_tool reg nm arguments w p =
              (Inr (PDict [(''success'', PBool False),
                           (''error'', PStr (''Tool execution failed: '' @ exn_str e)),
                           (''tool'', PStr nm),
                           (''status_code'', PInt 500)]), p1, tr)"
    using assms by (simp add: execute_tool_def and_then_def except_Exception_def error_response_def)
next
  fix d assume "r = Inr (PDict d)"
  then show "execute_tool reg nm arguments w p = (Inr (PDict d), p1, tr)"
    using assms by (simp add: execute_tool_def and_then_def except_Exception_def)
next
  fix v assume "r = Inr v" and "\<forall>d. v \<noteq> PDict d"
  then show "execute_tool reg nm arguments w p =
              (Inr (PDict [(''success'', PBool False),
                           (''error'', PStr (''Tool execution failed: '' @
                               quoted (py_type_name v) @ '' object has no attribute '' @ quoted ''get'')),
                           (''tool'', PStr nm),
                           (''status_code'', PInt 500)]), p1, tr)"
    using assms
    by (cases v) (simp_all add: execute_tool_def and_then_def except_Exception_def error_response_def)
qed

theorem execute_tool_boundary_witness:
  "execute_tool [(''t'', demo_tool ''t'' (Inl (Exn RuntimeError ''boom'')))] ''t'' []
       (demo_world auth_ok) (new_provider demo_settings) =
     (Inr (PDict [(''success'', PBool False),
                  (''error'', PStr ''Tool execution failed: boom''),
                  (''tool'', PStr ''t''),
                  (''status_code'', PInt 500)]), new_provider demo_settings, [])
   \<and> execute_tool [(''t'', demo_tool ''t'' (Inr (success_response (PInt 1) PNone)))] ''t'' []
       (demo_world auth_ok) (new_provider demo_settings) =
     (Inr (PDict [(''success'', PBool True), (''data'', PInt 1)]), new_provider demo_settings, [])
   \<and> execute_tool [(''t'', demo_tool ''t'' (Inr (PStr ''done'')))] ''t'' []
       (demo_world auth_ok) (new_provider demo_settings) =
     (Inr (PDict [(''success'', PBool False),
                  (''error'', PStr (''Tool execution failed: 'str' object has no attribute '' @ quoted ''get'')),
                  (''tool'', PStr ''t''),
                  (''status_code'', PInt 500)]), new_provider demo_settings, [])"
  using
    execute_tool_boundary [of "[(''t'', demo_tool ''t'' (Inl (Exn RuntimeError ''boom'')))]" "''t''"
      "demo_tool ''t'' (Inl (Exn RuntimeError ''boom''))" "[]" "demo_world auth_ok"
      "new_provider demo_settings" "Inl (Exn RuntimeError ''boom'')" "new_provider demo_settings" "[]"]
    execute_tool_boundary [of "[(''t'', demo_tool ''t'' (Inr (success_response (PInt 1) PNone)))]" "''t''"
      "demo_tool ''t'' (Inr (success_response (PInt 1) PNone))" "[]" "demo_world auth_ok"
      "new_provider demo_settings" "Inr (success_response (PInt 1) PNone)" "new_provider demo_settings" "[]"]
    execute_tool_boundary [of "[(''t'', demo_tool ''t'' (Inr (PStr ''done'')))]" "''t''"
      "demo_tool ''t'' (Inr (PStr ''done''))" "[]" "demo_world auth_ok"
      "new_provider demo_settings" "Inr (PStr ''done'')" "new_provider demo_settings" "[]"]
  by (simp add: get_tool_def demo_tool_def success_response_def quoted_def)

text \<open>
  Claim C4 as stated fails: a handler that returns the string \<open>done\<close> does not get
  its value back from \<open>execute_tool\<close>.
\<close>

theorem execute_tool_passthrough_counterexample:
  "handler (demo_tool ''t'' (Inr (PStr ''done''))) ''t'' [] (demo_world auth_ok)
       (new_provider demo_settings) = (Inr (PStr ''done''), new_provider demo_settings, [])
   \<and> fst (execute_tool [(''t'', demo_tool ''t'' (Inr (PStr ''done'')))] ''t'' []
            (demo_world auth_ok) (new_provider demo_settings)) \<noteq> Inr (PStr ''done'')"
  by (simp add: execute_tool_def get_tool_def demo_tool_def and_then_def except_Exception_def
        error_response_def)

text \<open>
  Claim C6. Registering a tool whose name is already registered raises the
  \<open>ValueError\<close> that names the tool (the duplicate-tool error of the specification),
  and the registry, so also the entry of the first registration, is left as it was.
\<close>

theorem register_tool_duplicate:
  "name t \<in> set (list_tool_names reg) \<Longrightarrow>
   register_tool t reg =
     (Inl (Exn ValueError (''Tool '' @ quoted (name t) @ '' is already registered'')), reg)"
  using not_listed [of "name t" reg] by (auto simp: register_tool_def)

theorem register_tool_duplicate_witness:
  "name (demo_tool ''t'' (Inr PNone)) \<in>
     set (list_tool_names [(''t'', demo_tool ''t'' (Inl (Exn RuntimeError ''first'')))])
   \<and> register_tool (demo_tool ''t'' (Inr PNone))
         [(''t'', demo_tool ''t'' (Inl (Exn RuntimeError ''first'')))] =
       (Inl (Exn ValueError ''Tool 't' is already registered''),
        [(''t'', demo_tool ''t'' (Inl (Exn RuntimeError ''first'')))])"
  using register_tool_duplicate [of "demo_tool ''t'' (Inr PNone)"
      "[(''t'', demo_tool ''t'' (Inl (Exn RuntimeError ''first'')))]"]
  by (simp add: list_tool_names_def demo_tool_def quoted_def)

text \<open>
  Claim C10. \<open>register_module\<close> is not atomic. When the tools before the offending
  one are new and distinct, and the offending one carries a name that is registered
  already or that occurs before it in the list, the \<open>ValueError\<close> of \<open>register_tool\<close>
  leaves \<open>register_module\<close> and the registry keeps every tool that came before, each
  with its bound handler.
\<close>

theorem register_module_not_atomic:
  assumes "distinct (map name pre)"
    and "set (map name pre) \<inter> set (list_tool_names reg) = {}"
    and "name d \<in> set (list_tool_names reg) \<union> set (map name pre)"
  shows "register_module (pre @ d # post) f reg =
           (Inl (Exn ValueError (''Tool '' @ quoted (name d) @ '' is already registered'')),
            reg @ map (\<lambda>t. (name t, t\<lparr>handler := bind_handler f\<rparr>)) pre)"
proof -
  let ?reg1 = "reg @ map (\<lambda>t. (name t, t\<lparr>handler := bind_handler f\<rparr>)) pre"
  let ?b = "d\<lparr>handler := bind_handler f\<rparr>"
  have "name ?b \<in> set (list_tool_names ?reg1)"
    using assms(3) by (auto simp: list_tool_names_def image_iff)
  from register_tool_taken [OF this]
  have "register_module (d # post) f ?reg1 =
          (Inl (Exn ValueError (''Tool '' @ quoted (name d) @ '' is already registered'')), ?reg1)"
    by simp
  then show ?thesis using register_module_fresh [OF assms(1,2), of "d # post" f] by simp
qed

theorem register_module_not_atomic_witness:
  "register_module
     [demo_tool ''a'' (Inr PNone), demo_tool ''b'' (Inr PNone), demo_tool ''a'' (Inr PNone),
      demo_tool ''c'' (Inr PNone)]
     hosts_execute_tool [] =
     (Inl (Exn ValueError ''Tool 'a' is already registered''),
      [(''a'', (demo_tool ''a'' (Inr PNone))\<lparr>handler := bind_handler hosts_execute_tool\<rparr>),
       (''b'', (demo_tool ''b'' (Inr PNone))\<lparr>handler := bind_handler hosts_execute_tool\<rparr>)])"
  using register_module_not_atomic
    [of "[demo_tool ''a'' (Inr PNone), demo_tool ''b'' (Inr PNone)]" "[]"
        "demo_tool ''a'' (Inr PNone)" "[demo_tool ''c'' (Inr PNone)]" hosts_execute_tool]
  by (simp add: list_tool_names_def demo_tool_def quoted_def)

section \<open>The provider: initialisation, failure, refresh\<close>

lemma ready_provider_eq:
  "ready_provider =
     \<lparr>p_settings = demo_settings,
      p_oauth2 = Some (OAuth2 ''id'' ''key'' ''https://api.crowdstrike.com''),
      p_hosts = Some (Hosts (PStr ''tok'') ''https://api.crowdstrike.com''),
      p_detects = Some (Detects (PStr ''tok'') ''https://api.crowdstrike.com''),
      p_incidents = Some (Incidents (PStr ''tok'') ''https://api.crowdstrike.com''),
      p_token_expiry = 2500, p_initialized = True\<rparr>"
  by (simp add: ready_provider_def initialize_def new_provider_def demo_world_def auth_ok_def
        demo_settings_def check_auth_result_def compute_expiry_def access_token_def
        and_then_def dict_get_def Let_def)



text \<open>
  Claim C5. On a provider that is initialized, \<open>initialize\<close> returns at once: the
  provider is returned as it was, every session field included, and the only event
  is the call itself, so no token exchange is made. Calling it again gives the same.
\<close>

theorem initialize_ready_noop:
  "p_initialized p \<Longrightarrow> initialize w p = (Inr (), p, [CallInitialize])"
  by (simp add: initialize_def)

theorem initialize_ready_noop_witness:
  "p_initialized ready_provider \<and>
   initialize (demo_world auth_denied) ready_provider = (Inr (), ready_provider, [CallInitialize])"
  using initialize_ready_noop [of ready_provider "demo_world auth_denied"]
  by (simp add: ready_provider_eq)










text \<open>
  The class of the exception on a refused authentication. The docstring of
  \<open>initialize\<close> announces \<open>ValueError\<close> when authentication fails, and that is what line
  106 raises; but the raise stands inside the \<open>try\<close> whose \<open>except Exception\<close> clause
  re-raises whatever it catches as \<open>ConnectionError\<close>, so the announced class never
  leaves the function.
\<close>

lemma initialize_masks_authentication_failure:
  "check_auth_result (demo_world auth_denied) auth_denied =
     Inl (Exn ValueError ''Authentication failed: access denied'')
   \<and> fst (initialize (demo_world auth_denied) (new_provider demo_settings)) =
     Inl (Exn ConnectionError ''Failed to initialize provider: Authentication failed: access denied'')"
  by (simp add: initialize_def new_provider_def demo_world_def auth_denied_def
        check_auth_result_def and_then_def dict_get_def init_failure_def Let_def)














section \<open>The tool modules: envelopes and exceptions\<close>

lemma success_total: "envelope_total (success_response d m)"
  by (simp add: envelope_total_def success_response_def)

lemma error_total: "envelope_total (error_response e t s d)"
  by (simp add: envelope_total_def error_response_def)

lemma success_wf: "well_formed n (success_response d m)"
  by (simp add: well_formed_def envelope_total_def names_tool_def success_response_def)

lemma error_wf: "well_formed n (error_response e (PStr n) s d)"
  by (simp add: well_formed_def envelope_total_def names_tool_def error_response_def)

lemma validation_wf: "well_formed n (validation_error_response f m (PStr n))"
  by (simp add: validation_error_response_def error_wf)

lemma api_error_wf: "well_formed n (api_error_response a s m (PStr n))"
  by (simp add: api_error_response_def error_wf)

lemma and_then_Inr: "and_then m f = Inr y \<Longrightarrow> \<exists>x. m = Inr x \<and> f x = Inr y"
  by (cases m) (simp_all add: and_then_def)

lemma api_failure_wf: "api_failure w n r = Inr env \<Longrightarrow> well_formed n env"
  unfolding api_failure_def
  by (auto dest!: and_then_Inr simp: api_error_wf)

lemma query_response_wf: "query_response w k n l off r = Inr env \<Longrightarrow> well_formed n env"
  unfolding query_response_def
  by (auto dest!: and_then_Inr simp: success_wf api_failure_wf split: if_splits)

lemma details_response_wf: "details_response w k n r = Inr env \<Longrightarrow> well_formed n env"
  unfolding details_response_def
  by (auto dest!: and_then_Inr simp: success_wf api_failure_wf split: if_splits)

lemma call_remote_wf:
  assumes "\<And>r env. k r = Inr env \<Longrightarrow> well_formed n env"
    and "fst (call_remote w a operation kwargs k) = Inr env"
  shows "well_formed n env"
  using assms by (auto simp: call_remote_def split: sum.splits dest!: and_then_Inr)

lemma catching_wf:
  assumes "\<And>env. fst run = Inr env \<Longrightarrow> well_formed n env"
  shows "\<exists>env. fst (catching l n run) = Inr env \<and> well_formed n env"
  using assms
  by (cases "fst run") (simp_all add: catching_def except_Exception_def tool_failure_def error_wf)

lemma query_devices_by_filter_wf:
  "\<exists>env. fst (query_devices_by_filter w p a) = Inr env \<and> well_formed ''query_devices_by_filter'' env"
  unfolding query_devices_by_filter_def
  by (rule catching_wf) (erule call_remote_wf [rotated], erule query_response_wf)

lemma query_detections_wf:
  "\<exists>env. fst (query_detections w p a) = Inr env \<and> well_formed ''query_detections'' env"
  unfolding query_detections_def
  by (rule catching_wf) (erule call_remote_wf [rotated], erule query_response_wf)

lemma query_incidents_wf:
  "\<exists>env. fst (query_incidents w p a) = Inr env \<and> well_formed ''query_incidents'' env"
  unfolding query_incidents_def
  by (rule catching_wf) (erule call_remote_wf [rotated], erule query_response_wf)

lemma details_run_wf:
  assumes "fst (if \<not> py_truthy ids then (Inr (validation_error_response f m (PStr n)), [])
                else (case py_len ids of
                        Inl e \<Rightarrow> (Inl e, [])
                      | Inr _ \<Rightarrow> call_remote w a operation kwargs (details_response w k n))) = Inr env"
  shows "well_formed n env"
proof (cases "py_truthy ids")
  case False
  with assms show ?thesis by (auto simp: validation_wf)
next
  case True
  with assms show ?thesis
    by (cases "py_len ids") (auto elim: call_remote_wf [rotated] dest: details_response_wf)
qed

lemma get_device_details_wf:
  "\<exists>env. fst (get_device_details w p a) = Inr env \<and> well_formed ''get_device_details'' env"
  unfolding get_device_details_def Let_def
  by (rule catching_wf) (erule details_run_wf)

lemma get_detection_details_wf:
  "\<exists>env. fst (get_detection_details w p a) = Inr env \<and> well_formed ''get_detection_details'' env"
  unfolding get_detection_details_def Let_def
  by (rule catching_wf) (erule details_run_wf)

lemma get_incident_details_wf:
  "\<exists>env. fst (get_incident_details w p a) = Inr env \<and> well_formed ''get_incident_details'' env"
  unfolding get_incident_details_def Let_def
  by (rule catching_wf) (erule details_run_wf)

lemma contain_host_wf:
  "\<exists>env. fst (contain_host w p a) = Inr env \<and> well_formed ''contain_host'' env"
  unfolding contain_host_def Let_def
  by (rule catching_wf)
     (auto simp: validation_wf success_wf split: if_splits
           elim!: call_remote_wf [rotated] dest!: and_then_Inr dest: api_failure_wf)

lemma lift_containment_wf:
  "\<exists>env. fst (lift_containment w p a) = Inr env \<and> well_formed ''lift_containment'' env"
  unfolding lift_containment_def Let_def
  by (rule catching_wf)
     (auto simp: validation_wf success_wf split: if_splits
           elim!: call_remote_wf [rotated] dest!: and_then_Inr dest: api_failure_wf)

lemma update_detection_status_wf:
  "\<exists>env. fst (update_detection_status w p a) = Inr env \<and> well_formed ''update_detection_status'' env"
  unfolding update_detection_status_def Let_def
  by (rule catching_wf)
     (auto simp: validation_wf success_wf split: if_splits sum.splits
           elim!: call_remote_wf [rotated] dest!: and_then_Inr dest: api_failure_wf)

lemma unknown_tool_wf: "\<exists>env. fst (unknown_tool n) = Inr env \<and> well_formed n env"
  by (simp add: unknown_tool_def error_wf)

lemma hosts_route:
  "\<exists>env. fst (if nm = ''query_devices_by_filter'' then query_devices_by_filter w p a
                else if nm = ''get_device_details'' then get_device_details w p a
                else if nm = ''contain_host'' then contain_host w p a
                else if nm = ''lift_containment'' then lift_containment w p a
                else unknown_tool nm) = Inr env \<and> well_formed nm env"
  using query_devices_by_filter_wf [of w p a] get_device_details_wf [of w p a]
    contain_host_wf [of w p a] lift_containment_wf [of w p a] unknown_tool_wf [of nm]
  by auto

lemma detections_route:
  "\<exists>env. fst (if nm = ''query_detections'' then query_detections w p a
                else if nm = ''get_detection_details'' then get_detection_details w p a
                else if nm = ''update_detection_status'' then update_detection_status w p a
                else unknown_tool nm) = Inr env \<and> well_formed nm env"
  using query_detections_wf [of w p a] get_detection_details_wf [of w p a]
    update_detection_status_wf [of w p a] unknown_tool_wf [of nm]
  by auto

lemma incidents_route:
  "\<exists>env. fst (if nm = ''query_incidents'' then query_incidents w p a
                else if nm = ''get_incident_details'' then get_incident_details w p a
                else unknown_tool nm) = Inr env \<and> well_formed nm env"
  using query_incidents_wf [of w p a] get_incident_details_wf [of w p a] unknown_tool_wf [of nm]
  by auto

lemma hosts_execute_tool_result:
  "(\<forall>e. fst (refresh_token_if_needed w p) = Inl e \<longrightarrow> fst (hosts_execute_tool w p nm a) = Inl e)
   \<and> (fst (refresh_token_if_needed w p) = Inr () \<longrightarrow>
        (\<exists>env. fst (hosts_execute_tool w p nm a) = Inr env \<and> well_formed nm env))"
proof (cases "refresh_token_if_needed w p")
  case (fields r p1 t1)
  show ?thesis
  proof (cases r)
    case (Inl e)
    with fields show ?thesis by (simp add: hosts_execute_tool_def)
  next
    case (Inr u)
    with fields show ?thesis
      using hosts_route [of nm w p1 a] by (simp add: hosts_execute_tool_def Let_def)
  qed
qed

lemma detections_execute_tool_result:
  "(\<forall>e. fst (refresh_token_if_needed w p) = Inl e \<longrightarrow> fst (detections_execute_tool w p nm a) = Inl e)
   \<and> (fst (refresh_token_if_needed w p) = Inr () \<longrightarrow>
        (\<exists>env. fst (detections_execute_tool w p nm a) = Inr env \<and> well_formed nm env))"
proof (cases "refresh_token_if_needed w p")
  case (fields r p1 t1)
  show ?thesis
  proof (cases r)
    case (Inl e)
    with fields show ?thesis by (simp add: detections_execute_tool_def)
  next
    case (Inr u)
    with fields show ?thesis
      using detections_route [of nm w p1 a] by (simp add: detections_execute_tool_def Let_def)
  qed
qed

lemma incidents_execute_tool_result:
  "(\<forall>e. fst (refresh_token_if_needed w p) = Inl e \<longrightarrow> fst (incidents_execute_tool w p nm a) = Inl e)
   \<and> (fst (refresh_token_if_needed w p) = Inr () \<longrightarrow>
        (\<exists>env. fst (incidents_execute_tool w p nm a) = Inr env \<and> well_formed nm env))"
proof (cases "refresh_token_if_needed w p")
  case (fields r p1 t1)
  show ?thesis
  proof (cases r)
    case (Inl e)
    with fields show ?thesis by (simp add: incidents_execute_tool_def)
  next
    case (Inr u)
    with fields show ?thesis
      using incidents_route [of nm w p1 a] by (simp add: incidents_execute_tool_def Let_def)
  qed
qed

lemma wf_total: "well_formed n env \<Longrightarrow> envelope_total env"
  by (simp add: well_formed_def)


text \<open>
  Claim C7. Every envelope built by \<open>success_response\<close>, \<open>error_response\<close>,
  \<open>validation_error_response\<close> or \<open>api_error_response\<close> has exactly one of the keys
  \<open>data\<close> and \<open>error\<close>: \<open>data\<close> exactly when \<open>success\<close> is true, \<open>error\<close> exactly when
  it is false. Each of the nine tool functions returns such an envelope on every
  input, and so does each module's dispatch function whenever it returns.
\<close>

theorem envelope_totality:
  "envelope_total (success_response d m)
   \<and> envelope_total (error_response e t s dt)
   \<and> envelope_total (validation_error_response f msg t)
   \<and> envelope_total (api_error_response api s msg t)
   \<and> (\<exists>env. fst (query_devices_by_filter w p a) = Inr env \<and> envelope_total env)
   \<and> (\<exists>env. fst (get_device_details w p a) = Inr env \<and> envelope_total env)
   \<and> (\<exists>env. fst (contain_host w p a) = Inr env \<and> envelope_total env)
   \<and> (\<exists>env. fst (lift_containment w p a) = Inr env \<and> envelope_total env)
   \<and> (\<exists>env. fst (query_detections w p a) = Inr env \<and> envelope_total env)
   \<and> (\<exists>env. fst (get_detection_details w p a) = Inr env \<and> envelope_total env)
   \<and> (\<exists>env. fst (update_detection_status w p a) = Inr env \<and> envelope_total env)
   \<and> (\<exists>env. fst (query_incidents w p a) = Inr env \<and> envelope_total env)
   \<and> (\<exists>env. fst (get_incident_details w p a) = Inr env \<and> envelope_total env)
   \<and> (\<forall>env. fst (hosts_execute_tool w p nm a) = Inr env \<longrightarrow> envelope_total env)
   \<and> (\<forall>env. fst (detections_execute_tool w p nm a) = Inr env \<longrightarrow> envelope_total env)
   \<and> (\<forall>env. fst (incidents_execute_tool w p nm a) = Inr env \<longrightarrow> envelope_total env)"
proof -
  have modules:
    "\<forall>env. fst (hosts_execute_tool w p nm a) = Inr env \<longrightarrow> envelope_total env"
    "\<forall>env. fst (detections_execute_tool w p nm a) = Inr env \<longrightarrow> envelope_total env"
    "\<forall>env. fst (incidents_execute_tool w p nm a) = Inr env \<longrightarrow> envelope_total env"
    using hosts_execute_tool_result [of w p nm a] detections_execute_tool_result [of w p nm a]
      incidents_execute_tool_result [of w p nm a]
    by (cases "fst (refresh_token_if_needed w p)"; auto dest: wf_total)+
  have constructors:
    "envelope_total (validation_error_response f msg t)"
    "envelope_total (api_error_response api s msg t)"
    by (simp_all add: validation_error_response_def api_error_response_def error_total)
  show ?thesis
    using success_total error_total constructors modules
      query_devices_by_filter_wf [of w p a] get_device_details_wf [of w p a]
      contain_host_wf [of w p a] lift_containment_wf [of w p a]
      query_detections_wf [of w p a] get_detection_details_wf [of w p a]
      update_detection_status_wf [of w p a]
      query_incidents_wf [of w p a] get_incident_details_wf [of w p a]
    by (blast dest: wf_total)
qed

theorem envelope_totality_witness:
  "fst (hosts_execute_tool (demo_world auth_ok) ready_provider ''contain_host'' []) =
     Inr (validation_error_response ''device_id'' ''Device ID is required'' (PStr ''contain_host''))
   \<and> envelope_total
        (validation_error_response ''device_id'' ''Device ID is required'' (PStr ''contain_host''))
   \<and> fst (detections_execute_tool (demo_world auth_ok) ready_provider ''nope'' []) =
       Inr (error_response (PStr ''Unknown tool: nope'') (PStr ''nope'') PNone PNone)
   \<and> envelope_total (error_response (PStr ''Unknown tool: nope'') (PStr ''nope'') PNone PNone)
   \<and> fst (incidents_execute_tool (demo_world auth_ok) ready_provider ''query_incidents'' []) =
       Inr (success_response (PDict [(''incident_ids'', PList [PStr ''d1''])])
              (PDict [(''total'', PInt 1), (''limit'', PInt 100), (''offset'', PInt 0)]))
   \<and> envelope_total
        (success_response (PDict [(''incident_ids'', PList [PStr ''d1''])])
           (PDict [(''total'', PInt 1), (''limit'', PInt 100), (''offset'', PInt 0)]))"
proof -
  have h: "fst (hosts_execute_tool (demo_world auth_ok) ready_provider ''contain_host'' []) =
     Inr (validation_error_response ''device_id'' ''Device ID is required'' (PStr ''contain_host''))"
    by (simp add: hosts_execute_tool_def refresh_token_if_needed_def ready_provider_eq
          demo_world_def contain_host_def catching_def except_Exception_def dict_get_def Let_def)
  have d: "fst (detections_execute_tool (demo_world auth_ok) ready_provider ''nope'' []) =
       Inr (error_response (PStr ''Unknown tool: nope'') (PStr ''nope'') PNone PNone)"
    by (simp add: detections_execute_tool_def refresh_token_if_needed_def ready_provider_eq
          demo_world_def unknown_tool_def Let_def)
  have i: "fst (incidents_execute_tool (demo_world auth_ok) ready_provider ''query_incidents'' []) =
       Inr (success_response (PDict [(''incident_ids'', PList [PStr ''d1''])])
              (PDict [(''total'', PInt 1), (''limit'', PInt 100), (''offset'', PInt 0)]))"
    by (simp add: incidents_execute_tool_def refresh_token_if_needed_def ready_provider_eq
          demo_world_def query_incidents_def catching_def except_Exception_def call_remote_def
          incidents_def query_params_def query_response_def and_then_def dict_get_def Let_def)
  show ?thesis
    using h d i
      envelope_totality [where w = "demo_world auth_ok" and p = ready_provider
        and nm = "''contain_host''" and a = "[]"]
      envelope_totality [where w = "demo_world auth_ok" and p = ready_provider
        and nm = "''nope''" and a = "[]"]
      envelope_totality [where w = "demo_world auth_ok" and p = ready_provider
        and nm = "''query_incidents''" and a = "[]"]
    by simp
qed







lemma py_in_strs_iff: "py_in_strs v ss = (v \<in> PStr ` set ss)"
  by (cases v) (auto simp: py_in_strs_def list_ex_iff)

lemma invalid_status_message:
  "py_join '', '' VALID_STATUSES =
   ''new, in_progress, true_positive, false_positive, closed, ignored, reopened''"
  by (simp add: VALID_STATUSES_def)

lemma update_detection_status_rejects:
  assumes "map_of arguments ''detection_ids'' = Some (PList ids)" and "ids \<noteq> []"
    and "map_of arguments ''status'' = Some status" and "py_truthy status"
    and "status \<notin> PStr ` set VALID_STATUSES"
  shows "update_detection_status w p arguments =
           (Inr (validation_error_response ''status''
                   (''Invalid status. Must be one of: '' @ py_join '', '' VALID_STATUSES)
                   (PStr ''update_detection_status'')), [])"
  using assms
  by (simp add: update_detection_status_def catching_def except_Exception_def dict_get_def
        py_in_strs_iff Let_def)

text \<open>
  Claim C9. With a non-empty list of detection ids and a non-empty status outside
  the seven allowed values, \<open>_update_detection_status\<close> returns the validation
  envelope (\<open>success\<close> false) whose details list the whole allowed set, and makes no
  remote call. Through the dispatch function of the module the result is the same
  whenever the refresh of step 1 returns, and the only events are those of that
  refresh: no business call is made.
\<close>

theorem update_detection_status_invalid_status:
  assumes "map_of arguments ''detection_ids'' = Some (PList ids)" and "ids \<noteq> []"
    and "map_of arguments ''status'' = Some status" and "py_truthy status"
    and "status \<notin> PStr ` set VALID_STATUSES"
  shows "update_detection_status w p arguments =
           (Inr (PDict [(''success'', PBool False),
                        (''error'', PStr ''Validation error''),
                        (''tool'', PStr ''update_detection_status''),
                        (''details'',
                         PDict [(''field'', PStr ''status''),
                                (''message'', PStr ''Invalid status. Must be one of: new, in_progress, true_positive, false_positive, closed, ignored, reopened'')])]),
            [])
       \<and> (fst (refresh_token_if_needed w p) = Inr () \<longrightarrow>
            fst (detections_execute_tool w p ''update_detection_status'' arguments) =
              fst (update_detection_status w (fst (snd (refresh_token_if_needed w p))) arguments))
       \<and> snd (snd (detections_execute_tool w p ''update_detection_status'' arguments)) =
            snd (snd (refresh_token_if_needed w p))"
proof -
  have r: "\<And>q. update_detection_status w q arguments =
           (Inr (validation_error_response ''status''
                   (''Invalid status. Must be one of: '' @ py_join '', '' VALID_STATUSES)
                   (PStr ''update_detection_status'')), [])"
    by (rule update_detection_status_rejects [OF assms])
  have m: "fst (refresh_token_if_needed w p) = Inr () \<longrightarrow>
            fst (detections_execute_tool w p ''update_detection_status'' arguments) =
              fst (update_detection_status w (fst (snd (refresh_token_if_needed w p))) arguments)"
    by (cases "refresh_token_if_needed w p")
       (auto simp: detections_execute_tool_def Let_def split: sum.splits)
  have t: "snd (snd (detections_execute_tool w p ''update_detection_status'' arguments)) =
            snd (snd (refresh_token_if_needed w p))"
    using r by (cases "refresh_token_if_needed w p")
       (auto simp: detections_execute_tool_def Let_def split: sum.splits)
  show ?thesis
    using r [of p] m t
    by (simp add: invalid_status_message validation_error_response_def error_response_def)
qed

theorem update_detection_status_invalid_status_witness:
  "update_detection_status (demo_world auth_ok) ready_provider
     [(''detection_ids'', PList [PStr ''x'']), (''status'', PStr ''bogus'')] =
     (Inr (PDict [(''success'', PBool False),
                  (''error'', PStr ''Validation error''),
                  (''tool'', PStr ''update_detection_status''),
                  (''details'',
                   PDict [(''field'', PStr ''status''),
                          (''message'', PStr ''Invalid status. Must be one of: new, in_progress, true_positive, false_positive, closed, ignored, reopened'')])]),
      [])
   \<and> detections_execute_tool (demo_world auth_ok) ready_provider ''update_detection_status''
       [(''detection_ids'', PList [PStr ''x'']), (''status'', PStr ''bogus'')] =
     (Inr (PDict [(''success'', PBool False),
                  (''error'', PStr ''Validation error''),
                  (''tool'', PStr ''update_detection_status''),
                  (''details'',
                   PDict [(''field'', PStr ''status''),
                          (''message'', PStr ''Invalid status. Must be one of: new, in_progress, true_positive, false_positive, closed, ignored, reopened'')])]),
      ready_provider, [])"
proof -
  have f: "refresh_token_if_needed (demo_world auth_ok) ready_provider = (Inr (), ready_provider, [])"
    by (simp add: refresh_token_if_needed_def ready_provider_eq demo_world_def)
  have s: "PStr ''bogus'' \<notin> PStr ` set VALID_STATUSES"
    by (simp add: VALID_STATUSES_def)
  have p: "fst (snd (detections_execute_tool (demo_world auth_ok) ready_provider
             ''update_detection_status''
             [(''detection_ids'', PList [PStr ''x'']), (''status'', PStr ''bogus'')])) = ready_provider"
    using f by (simp add: detections_execute_tool_def Let_def)
  show ?thesis
    using f s p
      update_detection_status_invalid_status
        [where arguments = "[(''detection_ids'', PList [PStr ''x'']), (''status'', PStr ''bogus'')]"
           and ids = "[PStr ''x'']" and status = "PStr ''bogus''"
           and w = "demo_world auth_ok" and p = ready_provider]
    by (simp add: prod_eq_iff)
qed

end
